theory Spec2Isabelle
  imports Main
begin

section \<open>JavaScript values\<close>

text \<open>
  Strings are lists of code units; the model covers code units below 256. Numbers are the
  integers a timestamp can hold (exact in a JavaScript Number up to \<open>2 ^ 53\<close>), with
  \<open>NaN\<close> as a value of its own; negative zero is not told apart from zero.
\<close>

datatype jsval = JUndefined | JNull | JNaN | JNum int | JStr string

text \<open>
  An object literal: its own properties, in insertion order. The property names of the
  records are identifiers, none of them an array index (those JavaScript lists first).
\<close>

type_synonym jsobj = "(string \<times> jsval) list"

text \<open>Thrown values are error objects carrying a message.\<close>

datatype js_error =
    Error (message: string)
  | TypeError (message: string)
  | SyntaxError (message: string)

fun truthy :: "jsval \<Rightarrow> bool" where
  "truthy JUndefined = False"
| "truthy JNull = False"
| "truthy JNaN = False"
| "truthy (JNum n) = (n \<noteq> 0)"
| "truthy (JStr s) = (s \<noteq> [])"

subsection \<open>Number to string, padStart\<close>

definition digit_char :: "nat \<Rightarrow> char" where
  "digit_char n = ''0123456789'' ! n"

fun string_of_nat :: "nat \<Rightarrow> string" where
  "string_of_nat n =
     (if n < 10 then [digit_char n] else string_of_nat (n div 10) @ [digit_char (n mod 10)])"

declare string_of_nat.simps [simp del]

definition String :: "int \<Rightarrow> string" where
  "String n = (if n < 0 then CHR ''-'' # string_of_nat (nat (- n)) else string_of_nat (nat n))"

definition padStart :: "nat \<Rightarrow> char \<Rightarrow> string \<Rightarrow> string" where
  "padStart targetLength fill s = replicate (targetLength - length s) fill @ s"

subsection \<open>parseInt\<close>

text \<open>
  \<open>parseInt(string)\<close> with no radix: leading white space is skipped, a sign is read, a
  \<open>0x\<close> or \<open>0X\<close> prefix selects radix 16, and the longest prefix of digits is the
  value; with no digit the result is \<open>NaN\<close>.
\<close>

definition is_js_whitespace :: "char \<Rightarrow> bool" where
  "is_js_whitespace c = ((of_char c :: nat) \<in> {9, 10, 11, 12, 13, 32, 160})"

definition digit_value :: "char \<Rightarrow> nat option" where
  "digit_value c =
     (let n = (of_char c :: nat) in
      if 48 \<le> n \<and> n \<le> 57 then Some (n - 48)
      else if 97 \<le> n \<and> n \<le> 102 then Some (n - 87)
      else if 65 \<le> n \<and> n \<le> 70 then Some (n - 55)
      else None)"

definition radix_digit :: "nat \<Rightarrow> char \<Rightarrow> bool" where
  "radix_digit R c = (case digit_value c of None \<Rightarrow> False | Some v \<Rightarrow> v < R)"

definition digits_value :: "nat \<Rightarrow> string \<Rightarrow> nat" where
  "digits_value R Z = foldl (\<lambda>acc c. acc * R + (case digit_value c of None \<Rightarrow> 0 | Some v \<Rightarrow> v)) 0 Z"

fun strip_sign :: "string \<Rightarrow> int \<times> string" where
  "strip_sign (c # S) =
     (if c = CHR ''-'' then (- 1, S) else if c = CHR ''+'' then (1, S) else (1, c # S))"
| "strip_sign [] = (1, [])"

fun strip_prefix :: "string \<Rightarrow> nat \<times> string" where
  "strip_prefix (z # x # S) =
     (if z = CHR ''0'' \<and> (x = CHR ''x'' \<or> x = CHR ''X'') then (16, S) else (10, z # x # S))"
| "strip_prefix S = (10, S)"

definition parseInt :: "string \<Rightarrow> jsval" where
  "parseInt inputString =
     (let (sign, S) = strip_sign (dropWhile is_js_whitespace inputString);
          (R, S') = strip_prefix S;
          Z = takeWhile (radix_digit R) S'
      in if Z = [] then JNaN else JNum (sign * int (digits_value R Z)))"

section \<open>Dates\<close>

text \<open>
  A Date holds a time value: milliseconds since the epoch, UTC. The local-time accessors
  go through the host's offset \<open>LocalTZA t isUTC\<close>, which may change over time (daylight
  saving). Time values stay inside the range where \<open>TimeClip\<close> is the identity.
\<close>

record host =
  now :: int
  LocalTZA :: "int \<Rightarrow> bool \<Rightarrow> int"

definition msPerDay :: int where
  "msPerDay = 86400000"

definition Day :: "int \<Rightarrow> int" where
  "Day t = t div msPerDay"

definition TimeWithinDay :: "int \<Rightarrow> int" where
  "TimeWithinDay t = t mod msPerDay"

definition leap_year :: "int \<Rightarrow> bool" where
  "leap_year y = (y mod 4 = 0 \<and> (y mod 100 \<noteq> 0 \<or> y mod 400 = 0))"

definition DaysInYear :: "int \<Rightarrow> int" where
  "DaysInYear y = (if leap_year y then 366 else 365)"

definition DayFromYear :: "int \<Rightarrow> int" where
  "DayFromYear y =
     365 * (y - 1970) + (y - 1969) div 4 - (y - 1901) div 100 + (y - 1601) div 400"

lemma div_step_bounds:
  fixes a :: int
  assumes "0 < n"
  shows "a div n \<le> (a + 1) div n" and "(a + 1) div n \<le> a div n + 1"
proof -
  show "a div n \<le> (a + 1) div n"
    using assms by (simp add: zdiv_mono1)
  have "(a + 1) div n \<le> (a + n) div n"
    using assms by (intro zdiv_mono1) auto
  also have "\<dots> = a div n + 1"
  proof -
    have "n \<noteq> 0" using assms by simp
    then show ?thesis by (rule div_add_self2)
  qed
  finally show "(a + 1) div n \<le> a div n + 1" .
qed

lemma DayFromYear_step: "DayFromYear y + 364 \<le> DayFromYear (y + 1)"
proof -
  have "(y - 1969) div 4 \<le> (y - 1969 + 1) div 4"
    and "(y - 1901 + 1) div 100 \<le> (y - 1901) div 100 + 1"
    and "(y - 1601) div 400 \<le> (y - 1601 + 1) div 400"
    by (rule div_step_bounds, simp)+
  then show ?thesis
    unfolding DayFromYear_def by (simp add: algebra_simps)
qed

text \<open>
  \<open>YearFromTime\<close> is the largest year whose first day is not after the given day: the
  search starts from a year that is not after it and walks forward.
\<close>

function year_search :: "int \<Rightarrow> int \<Rightarrow> int" where
  "year_search d y = (if DayFromYear (y + 1) \<le> d then year_search d (y + 1) else y)"
  by pat_completeness auto
termination
proof (relation "measure (\<lambda>(d, y). nat (d + 1 - DayFromYear (y + 1)))")
  show "wf (measure (\<lambda>(d, y). nat (d + 1 - DayFromYear (y + 1))))" by simp
next
  fix d y :: int
  assume "DayFromYear (y + 1) \<le> d"
  then show "((d, y + 1), (d, y)) \<in> measure (\<lambda>(d, y). nat (d + 1 - DayFromYear (y + 1)))"
    using DayFromYear_step [of "y + 1"] by simp
qed

declare year_search.simps [simp del]

definition year_of_day :: "int \<Rightarrow> int" where
  "year_of_day d = year_search d (1970 + (if 0 \<le> d then d div 366 else d div 365) - 1)"

definition YearFromTime :: "int \<Rightarrow> int" where
  "YearFromTime t = year_of_day (Day t)"

definition InLeapYear :: "int \<Rightarrow> int" where
  "InLeapYear t = (if leap_year (YearFromTime t) then 1 else 0)"

definition DayWithinYear :: "int \<Rightarrow> int" where
  "DayWithinYear t = Day t - DayFromYear (YearFromTime t)"

text \<open>The month (0 to 11) of day \<open>d\<close> of a year; \<open>l\<close> is 1 in a leap year, else 0.\<close>

definition month_of_day :: "int \<Rightarrow> int \<Rightarrow> int" where
  "month_of_day d l =
     (if d < 31 then 0
      else if d < 59 + l then 1
      else if d < 90 + l then 2
      else if d < 120 + l then 3
      else if d < 151 + l then 4
      else if d < 181 + l then 5
      else if d < 212 + l then 6
      else if d < 243 + l then 7
      else if d < 273 + l then 8
      else if d < 304 + l then 9
      else if d < 334 + l then 10
      else 11)"

definition MonthFromTime :: "int \<Rightarrow> int" where
  "MonthFromTime t = month_of_day (DayWithinYear t) (InLeapYear t)"

text \<open>The day of the year on which month \<open>m\<close> (0 to 11) starts.\<close>

definition month_start :: "int \<Rightarrow> int \<Rightarrow> int" where
  "month_start m l =
     (if m = 0 then 0
      else if m = 1 then 31
      else if m = 2 then 59 + l
      else if m = 3 then 90 + l
      else if m = 4 then 120 + l
      else if m = 5 then 151 + l
      else if m = 6 then 181 + l
      else if m = 7 then 212 + l
      else if m = 8 then 243 + l
      else if m = 9 then 273 + l
      else if m = 10 then 304 + l
      else 334 + l)"

definition DateFromTime :: "int \<Rightarrow> int" where
  "DateFromTime t = DayWithinYear t - month_start (MonthFromTime t) (InLeapYear t) + 1"

definition MakeDay :: "int \<Rightarrow> int \<Rightarrow> int \<Rightarrow> int" where
  "MakeDay year month dt =
     (let ym = year + month div 12; mn = month mod 12
      in DayFromYear ym + month_start mn (if leap_year ym then 1 else 0) + dt - 1)"

definition MakeDate :: "int \<Rightarrow> int \<Rightarrow> int" where
  "MakeDate day time = day * msPerDay + time"

definition LocalTime :: "host \<Rightarrow> int \<Rightarrow> int" where
  "LocalTime h t = t + LocalTZA h t True"

definition UTC :: "host \<Rightarrow> int \<Rightarrow> int" where
  "UTC h t = t - LocalTZA h t False"

definition getFullYear :: "host \<Rightarrow> int \<Rightarrow> int" where
  "getFullYear h date = YearFromTime (LocalTime h date)"

definition getMonth :: "host \<Rightarrow> int \<Rightarrow> int" where
  "getMonth h date = MonthFromTime (LocalTime h date)"

definition getDate :: "host \<Rightarrow> int \<Rightarrow> int" where
  "getDate h date = DateFromTime (LocalTime h date)"

definition setDate :: "host \<Rightarrow> int \<Rightarrow> int \<Rightarrow> int" where
  "setDate h date dt =
     (let t = LocalTime h date;
          newDate = MakeDate (MakeDay (YearFromTime t) (MonthFromTime t) dt) (TimeWithinDay t)
      in UTC h newDate)"

section \<open>The mail provider\<close>

text \<open>
  The authenticated client is the provider seen from the program: what the list endpoint
  and the get endpoint answer to a request, either a response or a thrown error. A field
  the provider may leave out of a response is an option.
\<close>

record list_params =
  list_userId :: string
  q :: string
  maxResults :: nat

record get_params =
  get_userId :: string
  get_id :: string
  format :: string
  metadataHeaders :: "string list"

record message_ref =
  ref_id :: string

record list_response =
  messages :: "message_ref list option"

record header =
  header_name :: string
  header_value :: string

record message_payload =
  headers :: "header list option"

record message_resource =
  payload :: "message_payload option"
  internalDate :: "string option"

record gmail_client =
  messages_list :: "list_params \<Rightarrow> js_error + list_response"
  messages_get :: "get_params \<Rightarrow> js_error + message_resource"

section \<open>email-service.js\<close>

definition formatDate :: "host \<Rightarrow> int \<Rightarrow> string" where
  "formatDate h date =
     (let year = getFullYear h date;
          month = padStart 2 (CHR ''0'') (String (getMonth h date + 1));
          day = padStart 2 (CHR ''0'') (String (getDate h date))
      in String year @ ''/'' @ month @ ''/'' @ day)"

text \<open>The request of the list call: the query built from the clock, and the cap.\<close>

definition list_request :: "host \<Rightarrow> list_params" where
  "list_request h =
     (let sixDaysAgo = now h;
          sixDaysAgo = setDate h sixDaysAgo (getDate h sixDaysAgo - 6);
          formattedDate = formatDate h sixDaysAgo;
          query = ''label:CVS subject:$4 Coupon! after:'' @ formattedDate
      in \<lparr>list_userId = ''me'', q = query, maxResults = 500\<rparr>)"

definition get_request :: "string \<Rightarrow> get_params" where
  "get_request messageId =
     \<lparr>get_userId = ''me'', get_id = messageId, format = ''metadata'',
      metadataHeaders = [''To'', ''Date'']\<rparr>"

definition getHeaderValue :: "header list \<Rightarrow> string \<Rightarrow> jsval" where
  "getHeaderValue hs name =
     (case find (\<lambda>h. header_name h = name) hs of
        Some header \<Rightarrow> JStr (header_value header)
      | None \<Rightarrow> JNull)"

text \<open>
  The body of the \<open>try\<close> block of \<open>extractEmailData\<close>. Destructuring a missing
  payload and calling \<open>find\<close> on missing headers throw a TypeError.
\<close>

definition extractEmailData_try :: "gmail_client \<Rightarrow> string \<Rightarrow> js_error + jsobj" where
  "extractEmailData_try gmail messageId =
     (case messages_get gmail (get_request messageId) of
        Inl error \<Rightarrow> Inl error
      | Inr data \<Rightarrow>
          (case payload data of
             None \<Rightarrow>
               Inl (TypeError
                 ''Cannot destructure property 'headers' of 'response.data.payload' as it is undefined.'')
           | Some p \<Rightarrow>
               (case headers p of
                  None \<Rightarrow> Inl (TypeError ''Cannot read properties of undefined (reading 'find')'')
                | Some hs \<Rightarrow>
                    Inr [(''id'', JStr messageId),
                         (''to'', getHeaderValue hs ''To''),
                         (''date'', getHeaderValue hs ''Date''),
                         (''timestamp'',
                            (case internalDate data of
                               None \<Rightarrow> JNull
                             | Some s \<Rightarrow> if s \<noteq> [] then parseInt s else JNull))])))"

text \<open>The record the \<open>catch\<close> block returns.\<close>

definition error_record :: "string \<Rightarrow> js_error \<Rightarrow> jsobj" where
  "error_record messageId error =
     [(''id'', JStr messageId),
      (''error'', JStr (message error)),
      (''subject'', JNull),
      (''from'', JNull),
      (''to'', JNull),
      (''date'', JNull),
      (''timestamp'', JNull)]"

definition extractEmailData :: "gmail_client \<Rightarrow> string \<Rightarrow> js_error + jsobj" where
  "extractEmailData gmail messageId =
     (case extractEmailData_try gmail messageId of
        Inr emailData \<Rightarrow> Inr emailData
      | Inl error \<Rightarrow> Inr (error_record messageId error))"

text \<open>\<open>Promise.all\<close>: every result in order, or the first rejection.\<close>

fun promise_all :: "(js_error + 'a) list \<Rightarrow> js_error + 'a list" where
  "promise_all [] = Inr []"
| "promise_all (Inl e # ps) = Inl e"
| "promise_all (Inr x # ps) = (case promise_all ps of Inl e \<Rightarrow> Inl e | Inr xs \<Rightarrow> Inr (x # xs))"

text \<open>
  \<open>fetchCVSEmails\<close>: an error of the list call is logged and thrown again. The console
  output of this module is not part of the model.
\<close>

definition fetchCVSEmails :: "host \<Rightarrow> gmail_client \<Rightarrow> js_error + jsobj list" where
  "fetchCVSEmails h gmail =
     (case messages_list gmail (list_request h) of
        Inl error \<Rightarrow> Inl error
      | Inr response \<Rightarrow>
          (let msgs = (case messages response of None \<Rightarrow> [] | Some ms \<Rightarrow> ms) in
           if length msgs = 0 then Inr []
           else promise_all (map (\<lambda>message. extractEmailData gmail (ref_id message)) msgs)))"

text \<open>Reading a property of a record; a property that is not there reads as undefined.\<close>

definition get_prop :: "jsobj \<Rightarrow> string \<Rightarrow> jsval" where
  "get_prop obj k = (case map_of obj k of Some v \<Rightarrow> v | None \<Rightarrow> JUndefined)"

text \<open>The record \<open>extractEmailData\<close> produces for a message id, without the promise.\<close>

definition extracted :: "gmail_client \<Rightarrow> string \<Rightarrow> jsobj" where
  "extracted gmail messageId =
     (case extractEmailData_try gmail messageId of
        Inr emailData \<Rightarrow> emailData
      | Inl error \<Rightarrow> error_record messageId error)"

text \<open>The characters \<open>0\<close> to \<open>9\<close>.\<close>

definition decimal_digit :: "char \<Rightarrow> bool" where
  "decimal_digit c = (c \<in> set ''0123456789'')"

section \<open>The query as the specification describes it\<close>

text \<open>
  The calendar date (year, month 1 to 12, day of the month) of a local time value, and
  the format \<open>YYYY/MM/DD\<close>: four digits for the year, two for the month, two for the day.
\<close>

definition calendar_date :: "int \<Rightarrow> int \<times> int \<times> int" where
  "calendar_date t = (YearFromTime t, MonthFromTime t + 1, DateFromTime t)"

definition YYYY_MM_DD :: "int \<times> int \<times> int \<Rightarrow> string" where
  "YYYY_MM_DD ymd =
     (case ymd of (y, m, d) \<Rightarrow>
        padStart 4 (CHR ''0'') (String y) @ ''/'' @ padStart 2 (CHR ''0'') (String m) @ ''/''
          @ padStart 2 (CHR ''0'') (String d))"

text \<open>
  The host maps the local time \<open>t\<close> to an instant of the same local calendar day. This
  fails only where a change of the clock skips the local time \<open>t\<close> across midnight.
\<close>

definition same_local_day :: "host \<Rightarrow> int \<Rightarrow> bool" where
  "same_local_day h t = (Day (LocalTime h (UTC h t)) = Day t)"

section \<open>JSON.stringify\<close>

text \<open>
  \<open>JSON.stringify(emails, null, 2)\<close> for an array of records whose properties hold
  primitive values. A property that is undefined is left out, \<open>NaN\<close> is written as
  \<open>null\<close>, and nested structures are indented by two spaces per level.
\<close>

definition hex_char :: "nat \<Rightarrow> char" where
  "hex_char n = ''0123456789abcdef'' ! n"

definition UnicodeEscape :: "nat \<Rightarrow> string" where
  "UnicodeEscape n =
     [CHR 0x5C, CHR ''u'', hex_char (n div 4096 mod 16), hex_char (n div 256 mod 16),
      hex_char (n div 16 mod 16), hex_char (n mod 16)]"

definition quote_char :: "char \<Rightarrow> string" where
  "quote_char c =
     (if c = CHR 0x08 then [CHR 0x5C, CHR ''b'']
      else if c = CHR 0x09 then [CHR 0x5C, CHR ''t'']
      else if c = CHR 0x0A then [CHR 0x5C, CHR ''n'']
      else if c = CHR 0x0C then [CHR 0x5C, CHR ''f'']
      else if c = CHR 0x0D then [CHR 0x5C, CHR ''r'']
      else if c = CHR 0x22 then [CHR 0x5C, CHR 0x22]
      else if c = CHR 0x5C then [CHR 0x5C, CHR 0x5C]
      else if (of_char c :: nat) < 32 then UnicodeEscape (of_char c)
      else [c])"

definition QuoteJSONString :: "string \<Rightarrow> string" where
  "QuoteJSONString s = [CHR 0x22] @ concat (map quote_char s) @ [CHR 0x22]"

text \<open>The text of a property value; \<open>None\<close> when the property is left out.\<close>

fun SerializeJSONProperty :: "jsval \<Rightarrow> string option" where
  "SerializeJSONProperty JUndefined = None"
| "SerializeJSONProperty JNull = Some ''null''"
| "SerializeJSONProperty JNaN = Some ''null''"
| "SerializeJSONProperty (JNum n) = Some (String n)"
| "SerializeJSONProperty (JStr s) = Some (QuoteJSONString s)"

fun join :: "string \<Rightarrow> string list \<Rightarrow> string" where
  "join sep [] = []"
| "join sep [x] = x"
| "join sep (x # y # ys) = x @ sep @ join sep (y # ys)"

text \<open>An object and an array, written at the indentation \<open>stepback\<close> with the gap \<open>gap\<close>.\<close>

definition SerializeJSONObject :: "string \<Rightarrow> string \<Rightarrow> jsobj \<Rightarrow> string" where
  "SerializeJSONObject gap stepback obj =
     (let indent = stepback @ gap;
          partial = List.map_filter
            (\<lambda>(K, v). case SerializeJSONProperty v of
                 None \<Rightarrow> None
               | Some strP \<Rightarrow> Some (QuoteJSONString K @ '':'' @ '' '' @ strP)) obj
      in if partial = [] then ''{}''
         else ''{'' @ [CHR 0x0A] @ indent @ join ('','' @ [CHR 0x0A] @ indent) partial
                @ [CHR 0x0A] @ stepback @ ''}'')"

definition SerializeJSONArray :: "string \<Rightarrow> string \<Rightarrow> jsobj list \<Rightarrow> string" where
  "SerializeJSONArray gap stepback objs =
     (let indent = stepback @ gap;
          partial = map (SerializeJSONObject gap indent) objs
      in if partial = [] then ''[]''
         else ''['' @ [CHR 0x0A] @ indent @ join ('','' @ [CHR 0x0A] @ indent) partial
                @ [CHR 0x0A] @ stepback @ '']'')"

definition JSON_stringify :: "jsobj list \<Rightarrow> string" where
  "JSON_stringify emails = SerializeJSONArray ''  '' [] emails"

section \<open>utils.js\<close>

definition msPerSecond :: int where "msPerSecond = 1000"
definition msPerMinute :: int where "msPerMinute = 60000"
definition msPerHour :: int where "msPerHour = 3600000"

definition HourFromTime :: "int \<Rightarrow> int" where
  "HourFromTime t = (t div msPerHour) mod 24"

definition MinFromTime :: "int \<Rightarrow> int" where
  "MinFromTime t = (t div msPerMinute) mod 60"

definition SecFromTime :: "int \<Rightarrow> int" where
  "SecFromTime t = (t div msPerSecond) mod 60"

definition getHours :: "host \<Rightarrow> int \<Rightarrow> int" where
  "getHours h date = HourFromTime (LocalTime h date)"

definition getMinutes :: "host \<Rightarrow> int \<Rightarrow> int" where
  "getMinutes h date = MinFromTime (LocalTime h date)"

definition getSeconds :: "host \<Rightarrow> int \<Rightarrow> int" where
  "getSeconds h date = SecFromTime (LocalTime h date)"

definition formatTimestamp :: "host \<Rightarrow> int \<Rightarrow> string" where
  "formatTimestamp h date =
     (let year = getFullYear h date;
          month = padStart 2 (CHR ''0'') (String (getMonth h date + 1));
          day = padStart 2 (CHR ''0'') (String (getDate h date));
          hours = padStart 2 (CHR ''0'') (String (getHours h date));
          minutes = padStart 2 (CHR ''0'') (String (getMinutes h date));
          seconds = padStart 2 (CHR ''0'') (String (getSeconds h date))
      in String year @ ''-'' @ month @ ''-'' @ day @ ''_'' @ hours @ ''-'' @ minutes @ ''-'' @ seconds)"

text \<open>
  What loading the mapping file gives: \<open>readFile\<close> rejects, \<open>JSON.parse\<close> throws, or the
  file holds a JSON object from strings to strings (its documented format), given by its
  own properties.
\<close>

datatype mapping_file =
    Unreadable js_error
  | Malformed js_error
  | Mapping "(string \<times> string) list"

text \<open>
  The file system and the clock as \<open>saveEmailData\<close> meets them: whether writing a file
  fails, and what loading the mapping file gives. \<open>path.join\<close> is modelled with the
  POSIX separator. The code ignores the outcome of \<open>mkdir\<close>, which has no place here.
\<close>

record node_env =
  cwd :: string
  clock :: host
  writeFile :: "string \<Rightarrow> string \<Rightarrow> js_error option"
  load_mapping :: "string \<Rightarrow> mapping_file"

definition path_join :: "string \<Rightarrow> string \<Rightarrow> string" where
  "path_join a b = a @ ''/'' @ b"

datatype console_line =
    Log string
  | Warn string
  | ErrorLine string js_error

text \<open>
  The value of \<open>emailToPhoneMap[key]\<close>: an own property of the mapping, or a member
  every object inherits from \<open>Object.prototype\<close>, or undefined.
\<close>

datatype prop_value = OwnString string | Inherited string | Undefined

definition object_prototype_keys :: "string list" where
  "object_prototype_keys =
     [''constructor'', ''__defineGetter__'', ''__defineSetter__'', ''hasOwnProperty'',
      ''__lookupGetter__'', ''__lookupSetter__'', ''isPrototypeOf'', ''propertyIsEnumerable'',
      ''toString'', ''valueOf'', ''__proto__'', ''toLocaleString'']"

definition lookup_mapping :: "(string \<times> string) list \<Rightarrow> string \<Rightarrow> prop_value" where
  "lookup_mapping emailToPhoneMap key =
     (case map_of emailToPhoneMap key of
        Some v \<Rightarrow> OwnString v
      | None \<Rightarrow> if key \<in> set object_prototype_keys then Inherited key else Undefined)"

fun truthy_prop :: "prop_value \<Rightarrow> bool" where
  "truthy_prop (OwnString s) = (s \<noteq> [])"
| "truthy_prop (Inherited k) = True"
| "truthy_prop Undefined = False"

text \<open>The property key a value is converted to.\<close>

fun ToString :: "jsval \<Rightarrow> string" where
  "ToString JUndefined = ''undefined''"
| "ToString JNull = ''null''"
| "ToString JNaN = ''NaN''"
| "ToString (JNum n) = String n"
| "ToString (JStr s) = s"

text \<open>The loop that collects the phone numbers.\<close>

fun collect_phones :: "(string \<times> string) list \<Rightarrow> jsobj list \<Rightarrow> prop_value list" where
  "collect_phones emailToPhoneMap [] = []"
| "collect_phones emailToPhoneMap (email # emails) =
     (let toAddress = get_prop email ''to'' in
      if truthy toAddress \<and> truthy_prop (lookup_mapping emailToPhoneMap (ToString toAddress))
      then lookup_mapping emailToPhoneMap (ToString toAddress) # collect_phones emailToPhoneMap emails
      else collect_phones emailToPhoneMap emails)"

definition output_file :: "node_env \<Rightarrow> string" where
  "output_file env =
     (let outputDir = path_join (cwd env) ''output'';
          timestamp = formatTimestamp (clock env) (now (clock env));
          filename = ''emails_'' @ timestamp @ ''.json''
      in path_join outputDir filename)"

definition mapping_path :: "node_env \<Rightarrow> string option \<Rightarrow> string" where
  "mapping_path env mappingFilePath =
     (case mappingFilePath of
        Some p \<Rightarrow> p
      | None \<Rightarrow> path_join (path_join (cwd env) ''data'') ''email-phone-map.json'')"

text \<open>
  The block that loads the mapping: the mapping to use, and what it prints.
\<close>

definition load_emailToPhoneMap :: "node_env \<Rightarrow> string \<Rightarrow> (string \<times> string) list \<times> console_line list" where
  "load_emailToPhoneMap env mappingFilePath =
     (let warnings = (\<lambda>err.
            [Warn (''Warning: Could not load email-to-phone mapping from '' @ mappingFilePath
                     @ '': '' @ message err),
             Warn ''Continuing without mapping functionality''])
      in case load_mapping env mappingFilePath of
           Unreadable err \<Rightarrow> ([], warnings err)
         | Malformed err \<Rightarrow> ([], warnings err)
         | Mapping m \<Rightarrow>
             (m, [Log (''Loaded '' @ String (int (length m)) @ '' email-to-phone mappings'')]))"

text \<open>
  \<open>saveEmailData\<close>: the result (the phone numbers, or the error thrown), the files
  written, and the console output.
\<close>

record save_outcome =
  result :: "js_error + prop_value list"
  written :: "(string \<times> string) list"
  console :: "console_line list"

definition saveEmailData :: "jsobj list \<Rightarrow> string option \<Rightarrow> node_env \<Rightarrow> save_outcome" where
  "saveEmailData emails mappingFilePath env =
     (let mappingFilePath = mapping_path env mappingFilePath;
          filePath = output_file env;
          text = JSON_stringify emails
      in case writeFile env filePath text of
           Some error \<Rightarrow>
             \<lparr>result = Inl error, written = [],
              console = [ErrorLine ''Error saving email data:'' error]\<rparr>
         | None \<Rightarrow>
             (let saved = Log (''Saved '' @ String (int (length emails)) @ '' emails to '' @ filePath);
                  (emailToPhoneMap, loading) = load_emailToPhoneMap env mappingFilePath;
                  phoneNumbers = collect_phones emailToPhoneMap emails;
                  found = Log (''Found '' @ String (int (length phoneNumbers))
                                 @ '' matching phone numbers'')
              in \<lparr>result = Inr phoneNumbers, written = [(filePath, text)],
                  console = [saved] @ loading @ [found]\<rparr>))"

text \<open>
  The phone numbers as the specification describes them: the mapped number of every
  record whose recipient is a key of the mapping, in record order.
\<close>

definition mapped_phones :: "(string \<times> string) list \<Rightarrow> jsobj list \<Rightarrow> string list" where
  "mapped_phones m emails =
     concat (map (\<lambda>email. case get_prop email ''to'' of
                              JStr a \<Rightarrow> (case map_of m a of Some p \<Rightarrow> [p] | None \<Rightarrow> [])
                            | _ \<Rightarrow> []) emails)"

text \<open>
  The same, for the recipients and phone numbers that are not the empty string.
\<close>

definition matching_phones :: "(string \<times> string) list \<Rightarrow> jsobj list \<Rightarrow> string list" where
  "matching_phones m emails =
     concat (map (\<lambda>email. case get_prop email ''to'' of
                              JStr a \<Rightarrow> (case map_of m a of
                                           Some p \<Rightarrow> if a \<noteq> [] \<and> p \<noteq> [] then [p] else []
                                         | None \<Rightarrow> [])
                            | _ \<Rightarrow> []) emails)"

text \<open>
  A record whose recipient is a string (or missing), and not the name of a member that
  the mapping only inherits.
\<close>

definition ordinary_recipient :: "(string \<times> string) list \<Rightarrow> jsobj \<Rightarrow> bool" where
  "ordinary_recipient m email =
     (case get_prop email ''to'' of
        JStr a \<Rightarrow> a \<notin> set object_prototype_keys \<or> map_of m a \<noteq> None
      | JNum n \<Rightarrow> False
      | _ \<Rightarrow> True)"

section \<open>JSON.parse\<close>

text \<open>
  The values of JSON texts, the tokens of a text, and the parser. Numbers are integer
  literals: a text with a fraction or an exponent, or with the escape of a code unit above
  \<open>00FF\<close>, is outside the model and gives \<open>None\<close>, as a text that is not JSON does.
\<close>

datatype json =
    JsonNull
  | JsonBool bool
  | JsonNumber int
  | JsonString string
  | JsonArray "json list"
  | JsonObject "(string \<times> json) list"

datatype token =
    TLBrace | TRBrace | TLBracket | TRBracket | TColon | TComma
  | TStr string | TNum int | TNull | TTrue | TFalse

definition json_whitespace :: "char \<Rightarrow> bool" where
  "json_whitespace c = (c = CHR '' '' \<or> c = CHR 0x09 \<or> c = CHR 0x0A \<or> c = CHR 0x0D)"

definition unescape :: "char \<Rightarrow> char option" where
  "unescape e =
     (if e = CHR 0x22 then Some (CHR 0x22)
      else if e = CHR 0x5C then Some (CHR 0x5C)
      else if e = CHR ''/'' then Some (CHR ''/'')
      else if e = CHR ''b'' then Some (CHR 0x08)
      else if e = CHR ''f'' then Some (CHR 0x0C)
      else if e = CHR ''n'' then Some (CHR 0x0A)
      else if e = CHR ''r'' then Some (CHR 0x0D)
      else if e = CHR ''t'' then Some (CHR 0x09)
      else None)"

definition hex4 :: "char \<Rightarrow> char \<Rightarrow> char \<Rightarrow> char \<Rightarrow> nat option" where
  "hex4 a b c d =
     (case (digit_value a, digit_value b, digit_value c, digit_value d) of
        (Some x, Some y, Some z, Some w) \<Rightarrow> Some (x * 4096 + y * 256 + z * 16 + w)
      | _ \<Rightarrow> None)"

text \<open>The characters of a string literal after the opening quote, and the rest of the text.\<close>

fun lex_string :: "string \<Rightarrow> (string \<times> string) option" where
  "lex_string [] = None"
| "lex_string (c # cs) =
     (if c = CHR 0x22 then Some ([], cs)
      else if c = CHR 0x5C then
        (case cs of
           [] \<Rightarrow> None
         | e # cs' \<Rightarrow>
             if e = CHR ''u'' then
               (case cs' of
                  a # b # x # y # cs'' \<Rightarrow>
                    (case hex4 a b x y of
                       None \<Rightarrow> None
                     | Some n \<Rightarrow>
                         if n < 256 then
                           (case lex_string cs'' of
                              None \<Rightarrow> None
                            | Some (s, rest) \<Rightarrow> Some (char_of n # s, rest))
                         else None)
                | _ \<Rightarrow> None)
             else
               (case unescape e of
                  None \<Rightarrow> None
                | Some ch \<Rightarrow>
                    (case lex_string cs' of
                       None \<Rightarrow> None
                     | Some (s, rest) \<Rightarrow> Some (ch # s, rest))))
      else if (of_char c :: nat) < 32 then None
      else (case lex_string cs of
              None \<Rightarrow> None
            | Some (s, rest) \<Rightarrow> Some (c # s, rest)))"

text \<open>An integer literal without its sign: no leading zero, no fraction, no exponent.\<close>

definition lex_digits :: "string \<Rightarrow> (nat \<times> string) option" where
  "lex_digits cs =
     (let ds = takeWhile decimal_digit cs; rest = dropWhile decimal_digit cs in
      if ds = [] then None
      else if hd ds = CHR ''0'' \<and> tl ds \<noteq> [] then None
      else if rest \<noteq> [] \<and> hd rest \<in> set ''.eE'' then None
      else Some (digits_value 10 ds, rest))"

definition lex_literal :: "string \<Rightarrow> string \<Rightarrow> string option" where
  "lex_literal word cs = (if take (length word) cs = word then Some (drop (length word) cs) else None)"

lemma lex_string_length: "lex_string cs = Some (s, rest) \<Longrightarrow> length rest < length cs"
proof (induction cs arbitrary: s rest rule: lex_string.induct)
  case 1
  then show ?case by simp
next
  case (2 c cs)
  then show ?case
    by (auto split: if_splits list.splits option.splits prod.splits) fastforce+
qed

lemma lex_digits_length: "lex_digits cs = Some (n, rest) \<Longrightarrow> length rest \<le> length cs"
  by (auto simp: lex_digits_def Let_def length_dropWhile_le split: if_splits)

lemma lex_digits_digit_length:
  "decimal_digit c \<Longrightarrow> lex_digits (c # cs) = Some (n, rest) \<Longrightarrow> length rest \<le> length cs"
  by (auto simp: lex_digits_def Let_def length_dropWhile_le split: if_splits)

lemma lex_literal_length: "lex_literal word cs = Some rest \<Longrightarrow> length rest \<le> length cs"
  by (auto simp: lex_literal_def split: if_splits)

function lex :: "string \<Rightarrow> token list option" where
  "lex [] = Some []"
| "lex (c # cs) =
     (if json_whitespace c then lex cs
      else if c = CHR ''{'' then map_option (Cons TLBrace) (lex cs)
      else if c = CHR ''}'' then map_option (Cons TRBrace) (lex cs)
      else if c = CHR ''['' then map_option (Cons TLBracket) (lex cs)
      else if c = CHR '']'' then map_option (Cons TRBracket) (lex cs)
      else if c = CHR '':'' then map_option (Cons TColon) (lex cs)
      else if c = CHR '','' then map_option (Cons TComma) (lex cs)
      else if c = CHR 0x22 then
        (case lex_string cs of
           None \<Rightarrow> None
         | Some (s, rest) \<Rightarrow> map_option (Cons (TStr s)) (lex rest))
      else if c = CHR ''-'' then
        (case lex_digits cs of
           None \<Rightarrow> None
         | Some (n, rest) \<Rightarrow> map_option (Cons (TNum (- int n))) (lex rest))
      else if decimal_digit c then
        (case lex_digits (c # cs) of
           None \<Rightarrow> None
         | Some (n, rest) \<Rightarrow> map_option (Cons (TNum (int n))) (lex rest))
      else if c = CHR ''n'' then
        (case lex_literal ''ull'' cs of
           None \<Rightarrow> None
         | Some rest \<Rightarrow> map_option (Cons TNull) (lex rest))
      else if c = CHR ''t'' then
        (case lex_literal ''rue'' cs of
           None \<Rightarrow> None
         | Some rest \<Rightarrow> map_option (Cons TTrue) (lex rest))
      else if c = CHR ''f'' then
        (case lex_literal ''alse'' cs of
           None \<Rightarrow> None
         | Some rest \<Rightarrow> map_option (Cons TFalse) (lex rest))
      else None)"
  by pat_completeness auto
termination
  by (relation "measure length")
    (auto dest: lex_string_length lex_digits_length lex_digits_digit_length lex_literal_length)


declare lex.simps [simp del]

text \<open>
  The parser reads one value from the tokens and returns it with the tokens that follow.
  The first argument bounds the number of nested calls; \<open>JSON_parse\<close> passes the
  number of tokens, and each call reads a token before it calls again.
\<close>

fun parse_value :: "nat \<Rightarrow> token list \<Rightarrow> (json \<times> token list) option"
  and parse_elements :: "nat \<Rightarrow> token list \<Rightarrow> (json list \<times> token list) option"
  and parse_members :: "nat \<Rightarrow> token list \<Rightarrow> ((string \<times> json) list \<times> token list) option"
where
  "parse_value 0 ts = None"
| "parse_value (Suc n) [] = None"
| "parse_value (Suc n) (TNull # ts) = Some (JsonNull, ts)"
| "parse_value (Suc n) (TTrue # ts) = Some (JsonBool True, ts)"
| "parse_value (Suc n) (TFalse # ts) = Some (JsonBool False, ts)"
| "parse_value (Suc n) (TNum k # ts) = Some (JsonNumber k, ts)"
| "parse_value (Suc n) (TStr s # ts) = Some (JsonString s, ts)"
| "parse_value (Suc n) (TLBracket # TRBracket # ts) = Some (JsonArray [], ts)"
| "parse_value (Suc n) (TLBracket # ts) =
     (case parse_value n ts of
        None \<Rightarrow> None
      | Some (v, ts') \<Rightarrow>
          (case parse_elements n ts' of
             None \<Rightarrow> None
           | Some (vs, ts'') \<Rightarrow> Some (JsonArray (v # vs), ts'')))"
| "parse_value (Suc n) (TLBrace # TRBrace # ts) = Some (JsonObject [], ts)"
| "parse_value (Suc n) (TLBrace # TStr k # TColon # ts) =
     (case parse_value n ts of
        None \<Rightarrow> None
      | Some (v, ts') \<Rightarrow>
          (case parse_members n ts' of
             None \<Rightarrow> None
           | Some (ms, ts'') \<Rightarrow> Some (JsonObject ((k, v) # ms), ts'')))"
| "parse_value (Suc n) (t # ts) = None"
| "parse_elements 0 ts = None"
| "parse_elements (Suc n) (TRBracket # ts) = Some ([], ts)"
| "parse_elements (Suc n) (TComma # ts) =
     (case parse_value n ts of
        None \<Rightarrow> None
      | Some (v, ts') \<Rightarrow>
          (case parse_elements n ts' of
             None \<Rightarrow> None
           | Some (vs, ts'') \<Rightarrow> Some (v # vs, ts'')))"
| "parse_elements (Suc n) ts = None"
| "parse_members 0 ts = None"
| "parse_members (Suc n) (TRBrace # ts) = Some ([], ts)"
| "parse_members (Suc n) (TComma # TStr k # TColon # ts) =
     (case parse_value n ts of
        None \<Rightarrow> None
      | Some (v, ts') \<Rightarrow>
          (case parse_members n ts' of
             None \<Rightarrow> None
           | Some (ms, ts'') \<Rightarrow> Some ((k, v) # ms, ts'')))"
| "parse_members (Suc n) ts = None"

definition JSON_parse :: "string \<Rightarrow> json option" where
  "JSON_parse text =
     (case lex text of
        None \<Rightarrow> None
      | Some ts \<Rightarrow>
          (case parse_value (length ts) ts of
             Some (v, []) \<Rightarrow> Some v
           | _ \<Rightarrow> None))"

text \<open>
  The object \<open>JSON.parse\<close> builds from the members of an object literal: a repeated key
  keeps its first place and takes the last value.
\<close>

fun define_property :: "string \<Rightarrow> jsval \<Rightarrow> jsobj \<Rightarrow> jsobj" where
  "define_property k v [] = [(k, v)]"
| "define_property k v (p # ps) = (if fst p = k then (k, v) # ps else p # define_property k v ps)"

fun jsval_of_json :: "json \<Rightarrow> jsval option" where
  "jsval_of_json JsonNull = Some JNull"
| "jsval_of_json (JsonNumber n) = Some (JNum n)"
| "jsval_of_json (JsonString s) = Some (JStr s)"
| "jsval_of_json v = None"

fun object_of_members :: "jsobj \<Rightarrow> (string \<times> json) list \<Rightarrow> jsobj option" where
  "object_of_members obj [] = Some obj"
| "object_of_members obj ((k, v) # ms) =
     (case jsval_of_json v of
        None \<Rightarrow> None
      | Some x \<Rightarrow> object_of_members (define_property k x obj) ms)"

fun record_of_json :: "json \<Rightarrow> jsobj option" where
  "record_of_json (JsonObject ms) = object_of_members [] ms"
| "record_of_json v = None"


section \<open>The printed text, token by token\<close>

text \<open>
  The tokens the text of \<open>JSON.stringify\<close> consists of, and the values they stand for.
\<close>



















section \<open>auth.js\<close>

text \<open>
  Both variants of the module: the one that asks the operator to paste the code, and
  the one that captures it with a local HTTP listener. Tokens are objects with
  primitive fields. The environment gives what reading the token file, parsing it,
  exchanging a code and writing the token file do.
\<close>

text \<open>
  \<open>JSON.stringify(tokens)\<close>, with no indentation.
\<close>

definition JSON_stringify_object :: "jsobj \<Rightarrow> string" where
  "JSON_stringify_object obj =
     (let partial = List.map_filter
            (\<lambda>(K, v). case SerializeJSONProperty v of
                 None \<Rightarrow> None
               | Some strP \<Rightarrow> Some (QuoteJSONString K @ '':'' @ strP)) obj
      in if partial = [] then ''{}'' else ''{'' @ join '','' partial @ ''}'')"

text \<open>
  The value of \<open>queryParams.code\<close>: missing, a string, or an array when the parameter is
  repeated. A missing or empty code is falsy.
\<close>

datatype query_code = NoCode | Code string | Codes "string list"

fun truthy_code :: "query_code \<Rightarrow> bool" where
  "truthy_code NoCode = False"
| "truthy_code (Code s) = (s \<noteq> [])"
| "truthy_code (Codes cs) = True"

text \<open>
  A request to the listener: what \<open>url.parse(req.url, true).query.code\<close> gives, or the
  error \<open>url.parse\<close> throws.
\<close>

record redirect_request =
  parsed_code :: "js_error + query_code"

record oauth_env =
  read_token :: "js_error + string"
  parse_token :: "string \<Rightarrow> js_error + jsobj"
  getToken :: "query_code \<Rightarrow> js_error + jsobj"
  write_token :: "string \<Rightarrow> js_error option"
  operator_input :: string
  listen_error :: "js_error option"
  redirects :: "redirect_request list"

text \<open>
  The outcome of an authorization: the credentials of the client that is returned or
  the error thrown (\<open>None\<close> when the promise never settles), and the text written to the
  token file, if any.
\<close>

record auth_outcome =
  client :: "(js_error + jsobj) option"
  token_file :: "string option"

subsection \<open>The manual variant\<close>

definition getNewToken_manual :: "oauth_env \<Rightarrow> auth_outcome" where
  "getNewToken_manual env =
     (let code = operator_input env in
      case getToken env (Code code) of
        Inl error \<Rightarrow> \<lparr>client = Some (Inl error), token_file = None\<rparr>
      | Inr tokens \<Rightarrow>
          (case write_token env (JSON_stringify_object tokens) of
             Some error \<Rightarrow> \<lparr>client = Some (Inl error), token_file = None\<rparr>
           | None \<Rightarrow>
               \<lparr>client = Some (Inr tokens), token_file = Some (JSON_stringify_object tokens)\<rparr>))"

definition getAuthenticatedGmail_manual :: "oauth_env \<Rightarrow> auth_outcome" where
  "getAuthenticatedGmail_manual env =
     (case read_token env of
        Inl err \<Rightarrow> getNewToken_manual env
      | Inr token \<Rightarrow>
          (case parse_token env token of
             Inl err \<Rightarrow> getNewToken_manual env
           | Inr credentials \<Rightarrow> \<lparr>client = Some (Inr credentials), token_file = None\<rparr>))"

subsection \<open>The local-callback variant\<close>

datatype promise = Pending | Resolved jsobj | Rejected js_error

text \<open>
  The listener and the pending authorization: whether the server listens, how often
  \<open>server.close()\<close> was called and how often it stopped the listener, the promise, the
  status codes of the responses, and the text written to the token file. The methods of
  the response and \<open>server.close()\<close> do not throw.
\<close>

record callback_state =
  listening :: bool
  close_calls :: nat
  stops :: nat
  pending :: promise
  responses :: "nat list"
  token_written :: "string option"

definition initial_state :: callback_state where
  "initial_state =
     \<lparr>listening = True, close_calls = 0, stops = 0, pending = Pending, responses = [],
      token_written = None\<rparr>"

definition respond :: "nat \<Rightarrow> callback_state \<Rightarrow> callback_state" where
  "respond status st = st\<lparr>responses := responses st @ [status]\<rparr>"

definition server_close :: "callback_state \<Rightarrow> callback_state" where
  "server_close st =
     st\<lparr>close_calls := Suc (close_calls st),
        stops := (if listening st then Suc (stops st) else stops st),
        listening := False\<rparr>"

text \<open>A promise settles once: later calls of \<open>resolve\<close> and \<open>reject\<close> do nothing.\<close>

definition resolve :: "jsobj \<Rightarrow> callback_state \<Rightarrow> callback_state" where
  "resolve tokens st = (if pending st = Pending then st\<lparr>pending := Resolved tokens\<rparr> else st)"

definition reject :: "js_error \<Rightarrow> callback_state \<Rightarrow> callback_state" where
  "reject error st = (if pending st = Pending then st\<lparr>pending := Rejected error\<rparr> else st)"

text \<open>The request handler of the listener, run to its end for one request.\<close>

definition handle_request :: "oauth_env \<Rightarrow> callback_state \<Rightarrow> redirect_request \<Rightarrow> callback_state" where
  "handle_request env st req =
     (case parsed_code req of
        Inl error \<Rightarrow> reject error (server_close (respond 500 st))
      | Inr code \<Rightarrow>
          if truthy_code code then
            (let st = server_close (respond 200 st) in
             case getToken env code of
               Inl error \<Rightarrow> reject error st
             | Inr tokens \<Rightarrow>
                 (case write_token env (JSON_stringify_object tokens) of
                    Some error \<Rightarrow> reject error st
                  | None \<Rightarrow>
                      resolve tokens (st\<lparr>token_written := Some (JSON_stringify_object tokens)\<rparr>)))
          else
            reject (Error ''No authorization code received'') (server_close (respond 400 st)))"

text \<open>
  \<open>getNewToken\<close>: the server fails to listen and the promise is rejected, or it listens
  and handles the requests that arrive, one after the other.
\<close>

definition run_listener :: "oauth_env \<Rightarrow> callback_state" where
  "run_listener env =
     (case listen_error env of
        Some error \<Rightarrow> reject error (initial_state\<lparr>listening := False\<rparr>)
      | None \<Rightarrow> foldl (handle_request env) initial_state (redirects env))"

definition getNewToken_local :: "oauth_env \<Rightarrow> auth_outcome" where
  "getNewToken_local env =
     (let st = run_listener env in
      \<lparr>client = (case pending st of
                   Pending \<Rightarrow> None
                 | Resolved tokens \<Rightarrow> Some (Inr tokens)
                 | Rejected error \<Rightarrow> Some (Inl error)),
       token_file = token_written st\<rparr>)"

definition getAuthenticatedGmail_local :: "oauth_env \<Rightarrow> auth_outcome" where
  "getAuthenticatedGmail_local env =
     (case read_token env of
        Inl err \<Rightarrow> getNewToken_local env
      | Inr token \<Rightarrow>
          (case parse_token env token of
             Inl err \<Rightarrow> getNewToken_local env
           | Inr credentials \<Rightarrow> \<lparr>client = Some (Inr credentials), token_file = None\<rparr>))"

section \<open>Example inputs\<close>

text \<open>A host in UTC whose clock reads 2024-03-10 at noon.\<close>

definition example_host :: host where
  "example_host = \<lparr>now = 1710072000000, LocalTZA = (\<lambda>t isUTC. 0)\<rparr>"

definition example_headers :: "header list" where
  "example_headers =
     [\<lparr>header_name = ''Date'', header_value = ''Sat, 9 Mar 2024 10:00:00 -0500''\<rparr>,
      \<lparr>header_name = ''To'', header_value = ''a@x.com''\<rparr>]"

definition example_message :: message_resource where
  "example_message =
     \<lparr>payload = Some \<lparr>headers = Some example_headers\<rparr>,
      internalDate = Some ''1709996400000''\<rparr>"

text \<open>A provider that lists two messages; fetching the first one fails.\<close>

definition example_refs :: "message_ref list" where
  "example_refs = [\<lparr>ref_id = ''m1''\<rparr>, \<lparr>ref_id = ''m2''\<rparr>]"

definition example_gmail :: gmail_client where
  "example_gmail =
     \<lparr>messages_list = (\<lambda>p. Inr \<lparr>messages = Some example_refs\<rparr>),
      messages_get = (\<lambda>p. if get_id p = ''m1'' then Inl (Error ''Request failed'')
                            else Inr example_message)\<rparr>"

text \<open>A provider with no matching message: the response has no \<open>messages\<close> field.\<close>

definition empty_gmail :: gmail_client where
  "empty_gmail =
     \<lparr>messages_list = (\<lambda>p. Inr \<lparr>messages = None\<rparr>),
      messages_get = (\<lambda>p. Inl (Error ''Not Found''))\<rparr>"


text \<open>
  A host five hours behind UTC at 2024-03-10 01:00 UTC, where the local date is still
  2024-03-09; and a host in UTC whose clock reads 0999-03-10 at noon.
\<close>

definition west_host :: host where
  "west_host = \<lparr>now = 1710032400000, LocalTZA = (\<lambda>t isUTC. - 18000000)\<rparr>"


text \<open>
  A host whose clock changes from five to four hours behind UTC on 2024-03-10 at 02:00
  local time; it reads 2024-03-13 10:30 local time.
\<close>

definition dst_host :: host where
  "dst_host =
     \<lparr>now = 1710340200000,
      LocalTZA = (\<lambda>t isUTC.
         if isUTC then (if t < 1710054000000 then - 18000000 else - 14400000)
         else (if t < 1710036000000 then - 18000000 else - 14400000))\<rparr>"

text \<open>
  Two records, for the recipients \<open>a@x.com\<close> and \<open>b@x.com\<close>, and environments where the
  write succeeds: one with the mapping of \<open>a@x.com\<close> to 555-0100, one where that phone
  number is the empty string, one without a mapping file.
\<close>

definition record_a :: jsobj where
  "record_a = [(''id'', JStr ''m1''), (''to'', JStr ''a@x.com''),
               (''date'', JStr ''Sat, 9 Mar 2024 10:00:00 -0500''), (''timestamp'', JNum 1709996400000)]"

definition record_b :: jsobj where
  "record_b = [(''id'', JStr ''m2''), (''to'', JStr ''b@x.com''),
               (''date'', JStr ''Sat, 9 Mar 2024 11:00:00 -0500''), (''timestamp'', JNum 1710000000000)]"

definition example_env :: node_env where
  "example_env =
     \<lparr>cwd = ''/home/user/app'', clock = example_host,
      writeFile = (\<lambda>path text. None),
      load_mapping = (\<lambda>path. Mapping [(''a@x.com'', ''555-0100'')])\<rparr>"

definition blank_phone_env :: node_env where
  "blank_phone_env = example_env\<lparr>load_mapping := (\<lambda>path. Mapping [(''a@x.com'', [])])\<rparr>"

definition no_mapping_env :: node_env where
  "no_mapping_env =
     example_env\<lparr>load_mapping := (\<lambda>path.
        Unreadable (Error ''ENOENT: no such file or directory, open '/home/user/app/data/email-phone-map.json' ''))\<rparr>"

text \<open>A record of a message whose \<open>To\<close> header is the text \<open>constructor\<close>.\<close>

definition record_c :: jsobj where
  "record_c = [(''id'', JStr ''m3''), (''to'', JStr ''constructor''),
               (''date'', JStr ''Sat, 9 Mar 2024 12:00:00 -0500''), (''timestamp'', JNum 1710003600000)]"


text \<open>
  An environment with no token file, where the provider exchanges the code \<open>ABC\<close> for
  tokens and the redirect request carries no code; one where the request carries the
  code; and one where the token file exists and holds text that is not JSON.
\<close>

definition example_tokens :: jsobj where
  "example_tokens =
     [(''access_token'', JStr ''ya29.a0''), (''refresh_token'', JStr ''1//0g''),
      (''scope'', JStr ''https://www.googleapis.com/auth/gmail.readonly''),
      (''token_type'', JStr ''Bearer''), (''expiry_date'', JNum 1710075600000)]"

definition no_code_env :: oauth_env where
  "no_code_env =
     \<lparr>read_token = Inl (Error ''ENOENT: no such file or directory, open 'token.json' ''),
      parse_token = (\<lambda>text. case JSON_parse text of
                               None \<Rightarrow> Inl (SyntaxError ''Unexpected token in JSON'')
                             | Some v \<Rightarrow> Inr (case record_of_json v of
                                                 Some tokens \<Rightarrow> tokens
                                               | None \<Rightarrow> [])),
      getToken = (\<lambda>code. if code = Code ''ABC'' then Inr example_tokens
                          else Inl (Error ''invalid_grant'')),
      write_token = (\<lambda>text. None),
      operator_input = ''ABC'',
      listen_error = None,
      redirects = [\<lparr>parsed_code = Inr NoCode\<rparr>]\<rparr>"

definition code_env :: oauth_env where
  "code_env = no_code_env\<lparr>redirects := [\<lparr>parsed_code = Inr (Code ''ABC'')\<rparr>]\<rparr>"

definition corrupt_token_env :: oauth_env where
  "corrupt_token_env = code_env\<lparr>read_token := Inr ''{access_token''\<rparr>"

section \<open>Properties of the extraction pipeline\<close>

lemma extractEmailData_extracted:
  "extractEmailData gmail messageId = Inr (extracted gmail messageId)"
  by (simp add: extractEmailData_def extracted_def split: sum.splits)

lemma extracted_id: "get_prop (extracted gmail messageId) ''id'' = JStr messageId"
  by (auto simp: extracted_def extractEmailData_try_def error_record_def get_prop_def
      split: sum.splits option.splits)

lemma extracted_get_fails:
  "messages_get gmail (get_request messageId) = Inl error
   \<Longrightarrow> extracted gmail messageId = error_record messageId error"
  by (simp add: extracted_def extractEmailData_try_def)

lemma promise_all_fulfilled: "promise_all (map (\<lambda>x. Inr (f x)) xs) = Inr (map f xs)"
  by (induction xs) simp_all

lemma fetchCVSEmails_listed:
  assumes "messages_list gmail (list_request h) = Inr response"
  shows "fetchCVSEmails h gmail =
           Inr (map (\<lambda>m. extracted gmail (ref_id m))
                  (case messages response of None \<Rightarrow> [] | Some ms \<Rightarrow> ms))"
  using assms
  by (simp add: fetchCVSEmails_def Let_def extractEmailData_extracted promise_all_fulfilled)

lemma example_list:
  "messages_list example_gmail (list_request example_host) = Inr \<lparr>messages = Some example_refs\<rparr>"
  by (simp add: example_gmail_def)

lemma empty_list:
  "messages_list empty_gmail (list_request example_host) = Inr \<lparr>messages = None\<rparr>"
  by (simp add: empty_gmail_def)

text \<open>
  C1. Whenever the list call returns, \<open>fetchCVSEmails\<close> returns one record per listed
  message ref, in the listing order; the record at each position is the one
  \<open>extractEmailData\<close> returns for the ref at that position, and its \<open>id\<close> is the id of
  that ref. This holds for every provider, so also when fetching a message fails.
\<close>

theorem fetchCVSEmails_one_record_per_ref:
  assumes "messages_list gmail (list_request h) = Inr response"
    and "refs = (case messages response of None \<Rightarrow> [] | Some ms \<Rightarrow> ms)"
  shows "\<exists>records. fetchCVSEmails h gmail = Inr records
           \<and> length records = length refs
           \<and> (\<forall>i < length refs.
                 extractEmailData gmail (ref_id (refs ! i)) = Inr (records ! i)
                 \<and> get_prop (records ! i) ''id'' = JStr (ref_id (refs ! i)))"
  using assms
  by (simp add: fetchCVSEmails_listed extractEmailData_extracted extracted_id)

theorem fetchCVSEmails_one_record_per_ref_witness:
  "messages_list example_gmail (list_request example_host) = Inr \<lparr>messages = Some example_refs\<rparr>
   \<and> (\<exists>records. fetchCVSEmails example_host example_gmail = Inr records
         \<and> length records = 2
         \<and> extractEmailData example_gmail ''m1'' = Inr (records ! 0)
         \<and> get_prop (records ! 0) ''id'' = JStr ''m1''
         \<and> extractEmailData example_gmail ''m2'' = Inr (records ! 1)
         \<and> get_prop (records ! 1) ''id'' = JStr ''m2'')"
proof -
  obtain records where r: "fetchCVSEmails example_host example_gmail = Inr records"
    "length records = length example_refs"
    "\<forall>i < length example_refs.
        extractEmailData example_gmail (ref_id (example_refs ! i)) = Inr (records ! i)
        \<and> get_prop (records ! i) ''id'' = JStr (ref_id (example_refs ! i))"
    using fetchCVSEmails_one_record_per_ref [OF example_list, of example_refs]
    by auto
  from r(3) have "extractEmailData example_gmail ''m1'' = Inr (records ! 0)
      \<and> get_prop (records ! 0) ''id'' = JStr ''m1''"
    by (auto simp: example_refs_def dest: spec [of _ 0])
  moreover from r(3) have "extractEmailData example_gmail ''m2'' = Inr (records ! 1)
      \<and> get_prop (records ! 1) ''id'' = JStr ''m2''"
    by (auto simp: example_refs_def dest: spec [of _ 1])
  ultimately show ?thesis
    using r(1,2) example_list by (simp add: example_refs_def)
qed

text \<open>
  C2. \<open>extractEmailData\<close> always returns a record and never an error. When the metadata
  fetch throws, the record carries the message id, the message of the error in
  \<open>error\<close>, and null in \<open>to\<close>, \<open>date\<close> and \<open>timestamp\<close>. The record of a message
  depends only on what the provider answers for that message: two providers that agree
  on it give the same record, whatever they answer for the other messages.
\<close>

theorem extractEmailData_never_throws:
  "(\<exists>record. extractEmailData gmail messageId = Inr record)
   \<and> (\<forall>error. messages_get gmail (get_request messageId) = Inl error \<longrightarrow>
         (\<exists>record. extractEmailData gmail messageId = Inr record
            \<and> get_prop record ''id'' = JStr messageId
            \<and> get_prop record ''error'' = JStr (message error)
            \<and> get_prop record ''to'' = JNull
            \<and> get_prop record ''date'' = JNull
            \<and> get_prop record ''timestamp'' = JNull))
   \<and> (\<forall>gmail'. messages_get gmail' (get_request messageId)
                    = messages_get gmail (get_request messageId) \<longrightarrow>
         extractEmailData gmail' messageId = extractEmailData gmail messageId)"
proof (intro conjI allI impI)
  show "\<exists>record. extractEmailData gmail messageId = Inr record"
    by (simp add: extractEmailData_extracted)
next
  fix error
  assume "messages_get gmail (get_request messageId) = Inl error"
  then have "extractEmailData gmail messageId = Inr (error_record messageId error)"
    by (simp add: extractEmailData_extracted extracted_get_fails)
  then show "\<exists>record. extractEmailData gmail messageId = Inr record
            \<and> get_prop record ''id'' = JStr messageId
            \<and> get_prop record ''error'' = JStr (message error)
            \<and> get_prop record ''to'' = JNull
            \<and> get_prop record ''date'' = JNull
            \<and> get_prop record ''timestamp'' = JNull"
    by (simp add: error_record_def get_prop_def)
next
  fix gmail' :: gmail_client
  assume "messages_get gmail' (get_request messageId) = messages_get gmail (get_request messageId)"
  then show "extractEmailData gmail' messageId = extractEmailData gmail messageId"
    by (simp add: extractEmailData_def extractEmailData_try_def)
qed

theorem extractEmailData_never_throws_witness:
  "messages_get example_gmail (get_request ''m1'') = Inl (Error ''Request failed'')
   \<and> messages_get (example_gmail\<lparr>messages_list := (\<lambda>p. Inl (Error ''down''))\<rparr>) (get_request ''m1'')
       = messages_get example_gmail (get_request ''m1'')
   \<and> (\<exists>record. extractEmailData example_gmail ''m1'' = Inr record
         \<and> get_prop record ''id'' = JStr ''m1''
         \<and> get_prop record ''error'' = JStr ''Request failed''
         \<and> get_prop record ''to'' = JNull
         \<and> get_prop record ''date'' = JNull
         \<and> get_prop record ''timestamp'' = JNull)
   \<and> extractEmailData (example_gmail\<lparr>messages_list := (\<lambda>p. Inl (Error ''down''))\<rparr>) ''m1''
       = extractEmailData example_gmail ''m1''"
proof -
  have g: "messages_get example_gmail (get_request ''m1'') = Inl (Error ''Request failed'')"
    by (simp add: example_gmail_def get_request_def)
  have g': "messages_get (example_gmail\<lparr>messages_list := (\<lambda>p. Inl (Error ''down''))\<rparr>) (get_request ''m1'')
       = messages_get example_gmail (get_request ''m1'')"
    by simp
  note t = extractEmailData_never_throws [of example_gmail "''m1''"]
  from t g have "\<exists>record. extractEmailData example_gmail ''m1'' = Inr record
         \<and> get_prop record ''id'' = JStr ''m1''
         \<and> get_prop record ''error'' = JStr (message (Error ''Request failed''))
         \<and> get_prop record ''to'' = JNull
         \<and> get_prop record ''date'' = JNull
         \<and> get_prop record ''timestamp'' = JNull"
    by blast
  moreover from t g' have "extractEmailData (example_gmail\<lparr>messages_list := (\<lambda>p. Inl (Error ''down''))\<rparr>) ''m1''
       = extractEmailData example_gmail ''m1''"
    by blast
  ultimately show ?thesis using g g' by simp
qed

text \<open>
  C5. The list call is made with a cap of 500. When the provider reports no matching
  message (the \<open>messages\<close> field is missing or empty), \<open>fetchCVSEmails\<close> returns the
  empty sequence and no error. When it returns N refs, N at most the cap, the result has
  exactly N records, and their ids are the ids of the refs in provider order.
\<close>

theorem fetchCVSEmails_empty_and_capped:
  assumes "messages_list gmail (list_request h) = Inr response"
  shows "maxResults (list_request h) = 500
     \<and> (messages response = None \<or> messages response = Some [] \<longrightarrow>
           fetchCVSEmails h gmail = Inr [])
     \<and> (\<forall>refs. messages response = Some refs \<and> length refs \<le> maxResults (list_request h) \<longrightarrow>
           (\<exists>records. fetchCVSEmails h gmail = Inr records
              \<and> length records = length refs
              \<and> map (\<lambda>r. get_prop r ''id'') records = map (\<lambda>m. JStr (ref_id m)) refs))"
proof (intro conjI allI impI)
  show "maxResults (list_request h) = 500"
    by (simp add: list_request_def Let_def)
next
  assume "messages response = None \<or> messages response = Some []"
  then show "fetchCVSEmails h gmail = Inr []"
    using assms by (auto simp: fetchCVSEmails_listed)
next
  fix refs
  assume "messages response = Some refs \<and> length refs \<le> maxResults (list_request h)"
  then show "\<exists>records. fetchCVSEmails h gmail = Inr records
              \<and> length records = length refs
              \<and> map (\<lambda>r. get_prop r ''id'') records = map (\<lambda>m. JStr (ref_id m)) refs"
    using assms by (simp add: fetchCVSEmails_listed extracted_id comp_def)
qed

theorem fetchCVSEmails_empty_and_capped_witness:
  "messages_list empty_gmail (list_request example_host) = Inr \<lparr>messages = None\<rparr>
   \<and> fetchCVSEmails example_host empty_gmail = Inr []
   \<and> messages_list example_gmail (list_request example_host) = Inr \<lparr>messages = Some example_refs\<rparr>
   \<and> length example_refs \<le> maxResults (list_request example_host)
   \<and> (\<exists>records. fetchCVSEmails example_host example_gmail = Inr records
         \<and> length records = 2
         \<and> map (\<lambda>r. get_prop r ''id'') records = [JStr ''m1'', JStr ''m2''])"
proof -
  have "fetchCVSEmails example_host empty_gmail = Inr []"
    using fetchCVSEmails_empty_and_capped [OF empty_list] by simp
  moreover have cap: "length example_refs \<le> maxResults (list_request example_host)"
    using fetchCVSEmails_empty_and_capped [OF example_list] by (simp add: example_refs_def)
  moreover have "\<exists>records. fetchCVSEmails example_host example_gmail = Inr records
         \<and> length records = length example_refs
         \<and> map (\<lambda>r. get_prop r ''id'') records = map (\<lambda>m. JStr (ref_id m)) example_refs"
    using fetchCVSEmails_empty_and_capped [OF example_list] cap by simp
  ultimately show ?thesis
    using empty_list example_list by (auto simp: example_refs_def)
qed

section \<open>Properties of parseInt and the timestamp\<close>






















section \<open>Properties of the calendar functions and the query\<close>

text \<open>\<open>YearFromTime\<close> is the largest year that starts on or before the day of \<open>t\<close>.\<close>

lemma div_bounds:
  fixes x n :: int
  assumes "0 < n"
  shows "n * (x div n) \<le> x" and "x < n * (x div n) + n"
proof -
  have "x = n * (x div n) + x mod n" by simp
  moreover have "0 \<le> x mod n" "x mod n < n" using assms by simp_all
  ultimately show "n * (x div n) \<le> x" and "x < n * (x div n) + n" by linarith+
qed

lemma DayFromYear_upper: "400 * DayFromYear (1970 + k) \<le> 146097 * k + 589"
proof -
  have "4 * ((k + 1) div 4) \<le> k + 1"
    and "k + 69 < 100 * ((k + 69) div 100) + 100"
    and "400 * ((k + 369) div 400) \<le> k + 369"
    by (rule div_bounds, simp)+
  then show ?thesis
    unfolding DayFromYear_def by (simp add: algebra_simps)
qed

lemma year_search_start: "DayFromYear (1970 + (if 0 \<le> d then d div 366 else d div 365) - 1) \<le> d"
proof (cases "0 \<le> d")
  case True
  define j where "j = d div 366"
  have "366 * j \<le> d" unfolding j_def by (rule div_bounds) simp
  then have "146400 * j \<le> 400 * d" by simp
  moreover have "0 \<le> j" using True by (simp add: j_def pos_imp_zdiv_nonneg_iff)
  then have "146097 * (j - 1) + 589 \<le> 146400 * j" by simp
  ultimately have "146097 * (j - 1) + 589 \<le> 400 * d"
    by (rule order_trans [rotated])
  with DayFromYear_upper [of "j - 1"] have "DayFromYear (1970 + (j - 1)) \<le> d" by linarith
  then show ?thesis using True by (simp add: j_def algebra_simps)
next
  case False
  define j where "j = d div 365"
  have "365 * j \<le> d" unfolding j_def by (rule div_bounds) simp
  then have "146000 * j \<le> 400 * d" by simp
  moreover have "j < 0" using False by (simp add: j_def neg_imp_zdiv_neg_iff)
  then have "146097 * (j - 1) + 589 \<le> 146000 * j" by simp
  ultimately have "146097 * (j - 1) + 589 \<le> 400 * d"
    by (rule order_trans [rotated])
  with DayFromYear_upper [of "j - 1"] have "DayFromYear (1970 + (j - 1)) \<le> d" by linarith
  then show ?thesis using False by (simp add: j_def algebra_simps)
qed

lemma year_search_spec:
  "DayFromYear y \<le> d \<Longrightarrow>
     DayFromYear (year_search d y) \<le> d \<and> d < DayFromYear (year_search d y + 1)"
proof (induction d y rule: year_search.induct)
  case (1 d y)
  show ?case
  proof (cases "DayFromYear (y + 1) \<le> d")
    case True
    with 1 show ?thesis by (subst (1 2) year_search.simps) simp
  next
    case False
    with 1 show ?thesis by (subst (1 2) year_search.simps) simp
  qed
qed

lemma YearFromTime_spec:
  "DayFromYear (YearFromTime t) \<le> Day t \<and> Day t < DayFromYear (YearFromTime t + 1)"
  unfolding YearFromTime_def year_of_day_def
  by (rule year_search_spec) (rule year_search_start)

lemma DayFromYear_mono: "y \<le> z \<Longrightarrow> DayFromYear y \<le> DayFromYear z"
proof (induction "nat (z - y)" arbitrary: z)
  case 0
  then show ?case by simp
next
  case (Suc n)
  then have "y \<le> z - 1" "n = nat (z - 1 - y)" by linarith+
  then have "DayFromYear y \<le> DayFromYear (z - 1)" using Suc.hyps(1) by blast
  with DayFromYear_step [of "z - 1"] show ?case by simp
qed

lemma YearFromTime_largest:
  assumes "DayFromYear y \<le> Day t"
  shows "y \<le> YearFromTime t"
proof (rule ccontr)
  assume "\<not> y \<le> YearFromTime t"
  then have "YearFromTime t + 1 \<le> y" by simp
  then have "DayFromYear (YearFromTime t + 1) \<le> DayFromYear y" by (rule DayFromYear_mono)
  with assms YearFromTime_spec [of t] show False by linarith
qed



lemma MakeDay_unfold:
  "MakeDay year month dt =
     DayFromYear (year + month div 12)
       + month_start (month mod 12) (if leap_year (year + month div 12) then 1 else 0) + dt - 1"
  by (simp add: MakeDay_def Let_def)

lemma setDate_unfold:
  "setDate h date dt =
     UTC h (MakeDate (MakeDay (YearFromTime (LocalTime h date)) (MonthFromTime (LocalTime h date)) dt)
              (TimeWithinDay (LocalTime h date)))"
  by (simp add: setDate_def Let_def)

lemma formatDate_unfold:
  "formatDate h date =
     String (getFullYear h date) @ ''/'' @ padStart 2 (CHR ''0'') (String (getMonth h date + 1))
       @ ''/'' @ padStart 2 (CHR ''0'') (String (getDate h date))"
  by (simp add: formatDate_def Let_def)

lemma list_request_unfold:
  "list_request h =
     \<lparr>list_userId = ''me'',
      q = ''label:CVS subject:$4 Coupon! after:''
            @ formatDate h (setDate h (now h) (getDate h (now h) - 6)),
      maxResults = 500\<rparr>"
  by (simp add: list_request_def Let_def)








lemmas date_eval =
  list_request_unfold formatDate_unfold setDate_unfold getDate_def getMonth_def getFullYear_def
  LocalTime_def UTC_def MakeDate_def MakeDay_unfold DateFromTime_def MonthFromTime_def
  month_of_day_def month_start_def DayWithinYear_def InLeapYear_def YearFromTime_def
  year_of_day_def year_search.simps DayFromYear_def leap_year_def Day_def TimeWithinDay_def
  msPerDay_def String_def padStart_def string_of_nat.simps digit_char_def calendar_date_def
  same_local_day_def YYYY_MM_DD_def

lemma example_query:
  "q (list_request example_host) = ''label:CVS subject:$4 Coupon! after:2024/03/04''"
  by (simp add: example_host_def date_eval)

lemma west_query:
  "q (list_request west_host) = ''label:CVS subject:$4 Coupon! after:2024/03/03''"
  by (simp add: west_host_def date_eval)


lemma dst_query:
  "q (list_request dst_host) = ''label:CVS subject:$4 Coupon! after:2024/03/07''"
  by (simp add: dst_host_def date_eval)








section \<open>Properties of saveEmailData\<close>

lemma lookup_mapping_ordinary:
  assumes "get_prop email ''to'' = JStr a" and "ordinary_recipient m email"
  shows "lookup_mapping m a = (case map_of m a of Some p \<Rightarrow> OwnString p | None \<Rightarrow> Undefined)"
  using assms by (auto simp: ordinary_recipient_def lookup_mapping_def split: option.splits)

lemma collect_phones_ordinary:
  assumes "\<forall>email \<in> set emails. ordinary_recipient m email"
  shows "collect_phones m emails = map OwnString (matching_phones m emails)"
  using assms
proof (induction emails)
  case Nil
  then show ?case by (simp add: matching_phones_def)
next
  case (Cons email emails)
  then have ih: "collect_phones m emails = map OwnString (matching_phones m emails)"
    and ord: "ordinary_recipient m email"
    by simp_all
  have split: "matching_phones m (email # emails)
      = (case get_prop email ''to'' of
           JStr a \<Rightarrow> (case map_of m a of
                        Some p \<Rightarrow> if a \<noteq> [] \<and> p \<noteq> [] then [p] else []
                      | None \<Rightarrow> [])
         | _ \<Rightarrow> []) @ matching_phones m emails"
    by (simp add: matching_phones_def)
  show ?case
  proof (cases "get_prop email ''to''")
    case (JStr a)
    then have "lookup_mapping m a = (case map_of m a of Some p \<Rightarrow> OwnString p | None \<Rightarrow> Undefined)"
      using ord by (rule lookup_mapping_ordinary)
    with JStr show ?thesis
      by (simp add: split ih Let_def split: option.splits)
  next
    case (JNum n)
    with ord show ?thesis by (simp add: ordinary_recipient_def)
  qed (simp_all add: split ih)
qed

lemma saveEmailData_written:
  assumes "writeFile env (output_file env) (JSON_stringify emails) = None"
  shows "result (saveEmailData emails mappingFilePath env)
           = Inr (collect_phones (fst (load_emailToPhoneMap env (mapping_path env mappingFilePath))) emails)"
    and "written (saveEmailData emails mappingFilePath env) = [(output_file env, JSON_stringify emails)]"
    and "console (saveEmailData emails mappingFilePath env)
           = [Log (''Saved '' @ String (int (length emails)) @ '' emails to '' @ output_file env)]
             @ snd (load_emailToPhoneMap env (mapping_path env mappingFilePath))
             @ [Log (''Found '' @ String (int (length (collect_phones
                   (fst (load_emailToPhoneMap env (mapping_path env mappingFilePath))) emails)))
                   @ '' matching phone numbers'')]"
  using assms by (simp_all add: saveEmailData_def Let_def split: prod.splits)

lemma load_emailToPhoneMap_Mapping:
  "load_mapping env path = Mapping m \<Longrightarrow> fst (load_emailToPhoneMap env path) = m"
  by (simp add: load_emailToPhoneMap_def)

text \<open>
  C6, as the code has it. When the output file is written and the mapping file loads,
  the phone numbers returned are the mapped numbers of the records whose recipient is a
  non-empty string, is a key of the mapping, and is mapped to a non-empty phone number;
  they come in record order, once per record. The recipients are strings or missing,
  and none is the name of a member the mapping only inherits. For the mapping of
  \<open>a@x.com\<close> to 555-0100 and two records for \<open>a@x.com\<close> and \<open>b@x.com\<close> the result
  is exactly that one phone number.
\<close>

theorem saveEmailData_phone_numbers:
  assumes "writeFile env (output_file env) (JSON_stringify emails) = None"
    and "load_mapping env (mapping_path env mappingFilePath) = Mapping m"
    and "\<forall>email \<in> set emails. ordinary_recipient m email"
  shows "result (saveEmailData emails mappingFilePath env)
           = Inr (map OwnString (matching_phones m emails))"
  using saveEmailData_written(1) [OF assms(1)] load_emailToPhoneMap_Mapping [OF assms(2)]
    collect_phones_ordinary [OF assms(3)]
  by simp

lemma example_env_facts:
  "writeFile example_env path text = None"
  "load_mapping example_env path = Mapping [(''a@x.com'', ''555-0100'')]"
  "writeFile blank_phone_env path text = None"
  "load_mapping blank_phone_env path = Mapping [(''a@x.com'', [])]"
  "writeFile no_mapping_env path text = None"
  by (simp_all add: example_env_def blank_phone_env_def no_mapping_env_def)

lemma example_records_ordinary:
  "\<forall>email \<in> set [record_a, record_b]. ordinary_recipient [(''a@x.com'', ''555-0100'')] email"
  by (simp add: ordinary_recipient_def record_a_def record_b_def get_prop_def
      object_prototype_keys_def)

theorem saveEmailData_phone_numbers_witness:
  "writeFile example_env (output_file example_env) (JSON_stringify [record_a, record_b]) = None
   \<and> load_mapping example_env (mapping_path example_env None) = Mapping [(''a@x.com'', ''555-0100'')]
   \<and> ordinary_recipient [(''a@x.com'', ''555-0100'')] record_a
   \<and> ordinary_recipient [(''a@x.com'', ''555-0100'')] record_b
   \<and> result (saveEmailData [record_a, record_b] None example_env) = Inr [OwnString ''555-0100'']"
proof -
  have "matching_phones [(''a@x.com'', ''555-0100'')] [record_a, record_b] = [''555-0100'']"
    by (simp add: matching_phones_def record_a_def record_b_def get_prop_def)
  then show ?thesis
    using saveEmailData_phone_numbers
      [OF example_env_facts(1) example_env_facts(2) example_records_ordinary, of None]
      example_env_facts(1,2) example_records_ordinary
    by simp
qed

text \<open>
  C6 as stated fails: the guard of the loop tests the mapped value for truth, so a
  recipient that is a key of the mapping with the empty string as its phone number
  contributes nothing, where the claim has the mapped phone number of every such record.
\<close>

theorem saveEmailData_phone_numbers_counterexample:
  "load_mapping blank_phone_env (mapping_path blank_phone_env None) = Mapping [(''a@x.com'', [])]
   \<and> mapped_phones [(''a@x.com'', [])] [record_a, record_b] = [[]]
   \<and> result (saveEmailData [record_a, record_b] None blank_phone_env) = Inr []
   \<and> result (saveEmailData [record_a, record_b] None blank_phone_env)
       \<noteq> Inr (map OwnString (mapped_phones [(''a@x.com'', [])] [record_a, record_b]))"
proof -
  have m: "mapped_phones [(''a@x.com'', [])] [record_a, record_b] = [[]]"
    by (simp add: mapped_phones_def record_a_def record_b_def get_prop_def)
  have "collect_phones [(''a@x.com'', [])] [record_a, record_b] = []"
    by (simp add: record_a_def record_b_def get_prop_def lookup_mapping_def Let_def
        object_prototype_keys_def)
  then have "result (saveEmailData [record_a, record_b] None blank_phone_env) = Inr []"
    using saveEmailData_written(1) [OF example_env_facts(3), of "[record_a, record_b]" None]
    by (simp add: load_emailToPhoneMap_Mapping [OF example_env_facts(4)])
  then show ?thesis
    using m example_env_facts(4) by simp
qed

lemma load_emailToPhoneMap_failed:
  assumes "load_mapping env path = Unreadable err \<or> load_mapping env path = Malformed err"
  shows "load_emailToPhoneMap env path =
           ([], [Warn (''Warning: Could not load email-to-phone mapping from '' @ path
                         @ '': '' @ message err),
                 Warn ''Continuing without mapping functionality''])"
  using assms by (auto simp: load_emailToPhoneMap_def)

lemma matching_phones_empty: "matching_phones [] emails = []"
  by (induction emails) (simp_all add: matching_phones_def split: jsval.splits)

text \<open>
  When the mapping file cannot be read or parsed and the output file is written,
  \<open>saveEmailData\<close> returns without an error, prints the warning, has written the
  output file, and, for ordinary recipients, returns no phone number.
\<close>

lemma saveEmailData_without_mapping:
  assumes "writeFile env (output_file env) (JSON_stringify emails) = None"
    and "load_mapping env (mapping_path env mappingFilePath) = Unreadable err
         \<or> load_mapping env (mapping_path env mappingFilePath) = Malformed err"
    and "\<forall>email \<in> set emails. ordinary_recipient [] email"
  shows "result (saveEmailData emails mappingFilePath env) = Inr []"
    and "written (saveEmailData emails mappingFilePath env)
           = [(output_file env, JSON_stringify emails)]"
    and "Warn (''Warning: Could not load email-to-phone mapping from ''
                 @ mapping_path env mappingFilePath @ '': '' @ message err)
           \<in> set (console (saveEmailData emails mappingFilePath env))"
proof -
  note l = load_emailToPhoneMap_failed [OF assms(2)]
  show "result (saveEmailData emails mappingFilePath env) = Inr []"
    using saveEmailData_written(1) [OF assms(1), of mappingFilePath]
      collect_phones_ordinary [OF assms(3)]
    by (simp add: l matching_phones_empty)
  show "written (saveEmailData emails mappingFilePath env)
           = [(output_file env, JSON_stringify emails)]"
    by (rule saveEmailData_written(2) [OF assms(1)])
  show "Warn (''Warning: Could not load email-to-phone mapping from ''
                 @ mapping_path env mappingFilePath @ '': '' @ message err)
           \<in> set (console (saveEmailData emails mappingFilePath env))"
    using saveEmailData_written(3) [OF assms(1), of mappingFilePath]
    by (simp add: l)
qed

text \<open>
  C7 fails on the code for a record whose recipient is the text \<open>constructor\<close>: with
  the mapping file missing, the empty mapping \<open>{}\<close> still answers the lookup with the
  member it inherits, which is truthy, so the result is not the empty sequence.
\<close>

theorem saveEmailData_missing_mapping_inherited:
  "load_mapping no_mapping_env (mapping_path no_mapping_env None)
     = Unreadable (Error ''ENOENT: no such file or directory, open '/home/user/app/data/email-phone-map.json' '')
   \<and> writeFile no_mapping_env (output_file no_mapping_env) (JSON_stringify [record_c]) = None
   \<and> result (saveEmailData [record_c] None no_mapping_env) = Inr [Inherited ''constructor'']
   \<and> result (saveEmailData [record_c] None no_mapping_env) \<noteq> Inr []"
proof -
  have l: "load_mapping no_mapping_env (mapping_path no_mapping_env None)
     = Unreadable (Error ''ENOENT: no such file or directory, open '/home/user/app/data/email-phone-map.json' '')"
    by (simp add: no_mapping_env_def)
  have "collect_phones [] [record_c] = [Inherited ''constructor'']"
    by (simp add: record_c_def get_prop_def lookup_mapping_def Let_def object_prototype_keys_def)
  then have "result (saveEmailData [record_c] None no_mapping_env) = Inr [Inherited ''constructor'']"
    using saveEmailData_written(1) [OF example_env_facts(5), of "[record_c]" None]
      load_emailToPhoneMap_failed [of no_mapping_env "mapping_path no_mapping_env None", OF disjI1, OF l]
    by simp
  then show ?thesis
    using l example_env_facts(5) by simp
qed

section \<open>Properties of the output file\<close>

text \<open>The text written for two small records, line by line.\<close>

lemma example_text:
  "JSON_stringify [[(''id'', JStr ''m1''), (''to'', JNull), (''timestamp'', JNaN)],
                   [(''id'', JStr ''m2''), (''timestamp'', JNum 1709996400000)]]
   = join [CHR 0x0A]
       [''['',
        ''  {'',
        ''    '' @ [CHR 0x22] @ ''id'' @ [CHR 0x22] @ '': '' @ [CHR 0x22] @ ''m1'' @ [CHR 0x22] @ '','',
        ''    '' @ [CHR 0x22] @ ''to'' @ [CHR 0x22] @ '': null,'',
        ''    '' @ [CHR 0x22] @ ''timestamp'' @ [CHR 0x22] @ '': null'',
        ''  },'',
        ''  {'',
        ''    '' @ [CHR 0x22] @ ''id'' @ [CHR 0x22] @ '': '' @ [CHR 0x22] @ ''m2'' @ [CHR 0x22] @ '','',
        ''    '' @ [CHR 0x22] @ ''timestamp'' @ [CHR 0x22] @ '': 1709996400000'',
        ''  }'',
        '']'']"
  by (simp add: JSON_stringify_def SerializeJSONArray_def SerializeJSONObject_def
      List.map_filter_simps QuoteJSONString_def quote_char_def String_def string_of_nat.simps
      digit_char_def)

lemma lex_whitespace: "json_whitespace c \<Longrightarrow> lex (c # cs) = lex cs"
  by (simp add: lex.simps)

lemma lex_spaces: "lex (replicate n (CHR '' '') @ cs) = lex cs"
  by (induction n) (simp_all add: lex_whitespace json_whitespace_def)





















































lemma extracted_distinct: "distinct (map fst (extracted gmail messageId))"
  by (auto simp: extracted_def extractEmailData_try_def error_record_def
      split: sum.splits option.splits)





section \<open>Properties of the authorization\<close>

lemma handle_request_closes:
  "close_calls (handle_request env st req) = Suc (close_calls st)"
  "stops (handle_request env st req) = (if listening st then Suc (stops st) else stops st)"
  "\<not> listening (handle_request env st req)"
  by (auto simp: handle_request_def reject_def resolve_def server_close_def respond_def Let_def
      split: sum.splits option.splits)

lemma handle_request_no_code:
  assumes "parsed_code req = Inr code" and "\<not> truthy_code code"
  shows "handle_request env initial_state req =
           \<lparr>listening = False, close_calls = 1, stops = 1,
            pending = Rejected (Error ''No authorization code received''),
            responses = [400], token_written = None\<rparr>"
  using assms
  by (simp add: handle_request_def reject_def server_close_def respond_def initial_state_def)

lemma stops_at_most_once:
  "stops (foldl (handle_request env) st reqs)
     = (if reqs \<noteq> [] \<and> listening st then Suc (stops st) else stops st)"
proof (induction reqs arbitrary: st)
  case Nil
  then show ?case by simp
next
  case (Cons req reqs)
  show ?case
    by (simp add: Cons.IH handle_request_closes)
qed

text \<open>
  C8. In the local-callback flow, a request whose code is missing (or empty) gets the
  status 400, leaves the listener stopped and rejects the pending authorization with the
  error \<open>No authorization code received\<close>, which \<open>getAuthenticatedGmail\<close> then throws.
  Whatever the request is (a code, no code, or an error while the request is read), the
  handler calls \<open>server.close()\<close> exactly once and the listener is stopped exactly
  once, also when further requests follow.
\<close>

theorem missing_code_is_terminal:
  "(\<forall>code. parsed_code req = Inr code \<and> \<not> truthy_code code \<longrightarrow>
       responses (handle_request env initial_state req) = [400]
       \<and> \<not> listening (handle_request env initial_state req)
       \<and> pending (handle_request env initial_state req)
           = Rejected (Error ''No authorization code received''))
   \<and> close_calls (handle_request env initial_state req) = 1
   \<and> stops (handle_request env initial_state req) = 1
   \<and> stops (foldl (handle_request env) initial_state (req # reqs)) = 1
   \<and> (\<forall>code. read_token env = Inl err \<and> listen_error env = None \<and> redirects env = [req]
         \<and> parsed_code req = Inr code \<and> \<not> truthy_code code \<longrightarrow>
       client (getAuthenticatedGmail_local env)
         = Some (Inl (Error ''No authorization code received'')))"
proof -
  have no_code: "responses (handle_request env initial_state req) = [400]
      \<and> \<not> listening (handle_request env initial_state req)
      \<and> pending (handle_request env initial_state req)
           = Rejected (Error ''No authorization code received'')"
    if "parsed_code req = Inr code" and "\<not> truthy_code code" for code
    using handle_request_no_code [OF that, of env] by simp
  have once: "close_calls (handle_request env initial_state req) = 1"
    "stops (handle_request env initial_state req) = 1"
    by (simp_all add: handle_request_closes initial_state_def)
  have surfaced: "client (getAuthenticatedGmail_local env)
         = Some (Inl (Error ''No authorization code received''))"
    if "read_token env = Inl err" and "listen_error env = None" and "redirects env = [req]"
      and "parsed_code req = Inr code" and "\<not> truthy_code code" for code
    using that(1-3) handle_request_no_code [OF that(4,5), of env]
    by (simp add: getAuthenticatedGmail_local_def getNewToken_local_def run_listener_def)
  have all: "stops (foldl (handle_request env) initial_state (req # reqs)) = 1"
    using stops_at_most_once [of env initial_state "req # reqs"]
    by (simp add: initial_state_def)
  show ?thesis
    using no_code once all surfaced by blast
qed

theorem missing_code_is_terminal_witness:
  "parsed_code \<lparr>parsed_code = Inr NoCode\<rparr> = Inr NoCode \<and> \<not> truthy_code NoCode
   \<and> read_token no_code_env = Inl (Error ''ENOENT: no such file or directory, open 'token.json' '')
   \<and> listen_error no_code_env = None
   \<and> redirects no_code_env = [\<lparr>parsed_code = Inr NoCode\<rparr>]
   \<and> responses (handle_request no_code_env initial_state \<lparr>parsed_code = Inr NoCode\<rparr>) = [400]
   \<and> \<not> listening (handle_request no_code_env initial_state \<lparr>parsed_code = Inr NoCode\<rparr>)
   \<and> pending (handle_request no_code_env initial_state \<lparr>parsed_code = Inr NoCode\<rparr>)
       = Rejected (Error ''No authorization code received'')
   \<and> close_calls (handle_request no_code_env initial_state \<lparr>parsed_code = Inr NoCode\<rparr>) = 1
   \<and> stops (handle_request no_code_env initial_state \<lparr>parsed_code = Inr NoCode\<rparr>) = 1
   \<and> stops (foldl (handle_request no_code_env) initial_state
         [\<lparr>parsed_code = Inr NoCode\<rparr>, \<lparr>parsed_code = Inr (Code ''ABC'')\<rparr>]) = 1
   \<and> client (getAuthenticatedGmail_local no_code_env)
       = Some (Inl (Error ''No authorization code received''))"
proof -
  have e: "read_token no_code_env = Inl (Error ''ENOENT: no such file or directory, open 'token.json' '')"
    "listen_error no_code_env = None"
    "redirects no_code_env = [\<lparr>parsed_code = Inr NoCode\<rparr>]"
    by (simp_all add: no_code_env_def)
  show ?thesis
    using missing_code_is_terminal
      [of "\<lparr>parsed_code = Inr NoCode\<rparr>" no_code_env "[\<lparr>parsed_code = Inr (Code ''ABC'')\<rparr>]"
          "Error ''ENOENT: no such file or directory, open 'token.json' ''"] e
    by simp
qed

lemma handle_request_read_token:
  "handle_request (env\<lparr>read_token := r\<rparr>) = handle_request env"
  by (intro ext) (simp add: handle_request_def cong: sum.case_cong option.case_cong if_cong)

lemma getNewToken_read_token:
  "getNewToken_local (env\<lparr>read_token := r\<rparr>) = getNewToken_local env"
  "getNewToken_manual (env\<lparr>read_token := r\<rparr>) = getNewToken_manual env"
  by (simp_all add: getNewToken_local_def run_listener_def handle_request_read_token
      getNewToken_manual_def cong: sum.case_cong option.case_cong)

text \<open>
  C10. When the token file is read but its text cannot be parsed, both variants of
  \<open>getAuthenticatedGmail\<close> do what they do when the file cannot be read: the result is
  that of a new authorization flow, and nothing else.
\<close>

theorem unparsable_token_file_starts_new_flow:
  assumes "read_token env = Inr token" and "parse_token env token = Inl err"
  shows "getAuthenticatedGmail_local env = getNewToken_local env
     \<and> getAuthenticatedGmail_local env = getAuthenticatedGmail_local (env\<lparr>read_token := Inl absent\<rparr>)
     \<and> getAuthenticatedGmail_manual env = getNewToken_manual env
     \<and> getAuthenticatedGmail_manual env = getAuthenticatedGmail_manual (env\<lparr>read_token := Inl absent\<rparr>)"
  using assms
  by (simp add: getAuthenticatedGmail_local_def getAuthenticatedGmail_manual_def
      getNewToken_read_token)

lemma corrupt_token_facts:
  "read_token corrupt_token_env = Inr ''{access_token''"
  "parse_token corrupt_token_env ''{access_token'' = Inl (SyntaxError ''Unexpected token in JSON'')"
  by (simp_all add: corrupt_token_env_def code_env_def no_code_env_def
      JSON_parse_def lex.simps json_whitespace_def decimal_digit_def)

lemma code_flow:
  "getNewToken_local corrupt_token_env
     = \<lparr>client = Some (Inr example_tokens),
        token_file = Some (JSON_stringify_object example_tokens)\<rparr>"
  by (simp add: getNewToken_local_def run_listener_def corrupt_token_env_def code_env_def
      no_code_env_def handle_request_def server_close_def respond_def resolve_def
      initial_state_def)

theorem unparsable_token_file_starts_new_flow_witness:
  "read_token corrupt_token_env = Inr ''{access_token''
   \<and> parse_token corrupt_token_env ''{access_token'' = Inl (SyntaxError ''Unexpected token in JSON'')
   \<and> getAuthenticatedGmail_local corrupt_token_env
       = \<lparr>client = Some (Inr example_tokens),
          token_file = Some (JSON_stringify_object example_tokens)\<rparr>
   \<and> getAuthenticatedGmail_local corrupt_token_env
       = getAuthenticatedGmail_local (corrupt_token_env\<lparr>read_token := Inl (Error ''ENOENT'')\<rparr>)
   \<and> getAuthenticatedGmail_manual corrupt_token_env = getNewToken_manual corrupt_token_env
   \<and> getAuthenticatedGmail_manual corrupt_token_env
       = getAuthenticatedGmail_manual (corrupt_token_env\<lparr>read_token := Inl (Error ''ENOENT'')\<rparr>)"
proof -
  note t = unparsable_token_file_starts_new_flow [OF corrupt_token_facts, of "Error ''ENOENT''"]
  have "getAuthenticatedGmail_local corrupt_token_env
       = \<lparr>client = Some (Inr example_tokens),
          token_file = Some (JSON_stringify_object example_tokens)\<rparr>"
    using t code_flow by simp
  then show ?thesis
    using t corrupt_token_facts by blast
qed

end
